theory Spec2Isabelle
  imports Complex_Main "HOL-Library.Word"
begin

section \<open>Data tools of the statespace module\<close>

text \<open>
  A shallow embedding of \<^verbatim>\<open>pymc_extras/statespace/utils/data_tools.py\<close> and of the
  forward simulator of \<^verbatim>\<open>tests/statespace/test_utilities.py\<close>.
  Exceptions are values of the type \<open>error\<close>; a function that can raise returns
  \<open>error + 'a\<close>.  Calls of \<^verbatim>\<open>warnings.warn\<close> are collected in a list that is
  returned beside the result.
\<close>

subsection \<open>Exceptions and warnings\<close>

datatype exc_class = ValueError | TypeError | IndexError | NotImplementedError | ShapeError

datatype number = Finite real | PosInf | NegInf | NaN

datatype error =
    Data_not_2d
  | Shape_mismatch int nat
  | Missing_columns "string set"
  | NoneType_not_iterable
  | MultiIndex_unsupported
  | Index_not_integer
  | Index_not_monotonic
  | Time_index_conflict
  | Fill_collision number
  | Tuple_index_out_of_range
  | List_index_out_of_range
  | Array_index_out_of_bounds
  | Mean_cov_length_mismatch
  | Matmul_mismatch
  | Broadcast_error
  | Dims_length_mismatch

text \<open>The Python class of each exception the code raises.\<close>

fun exc_of :: "error \<Rightarrow> exc_class" where
  "exc_of Data_not_2d = ValueError"
| "exc_of (Shape_mismatch n k) = ValueError"
| "exc_of (Missing_columns m) = ValueError"
| "exc_of NoneType_not_iterable = TypeError"
| "exc_of MultiIndex_unsupported = NotImplementedError"
| "exc_of Index_not_integer = IndexError"
| "exc_of Index_not_monotonic = IndexError"
| "exc_of Time_index_conflict = ValueError"
| "exc_of (Fill_collision v) = ValueError"
| "exc_of Tuple_index_out_of_range = IndexError"
| "exc_of List_index_out_of_range = IndexError"
| "exc_of Array_index_out_of_bounds = IndexError"
| "exc_of Mean_cov_length_mismatch = ValueError"
| "exc_of Matmul_mismatch = ValueError"
| "exc_of Broadcast_error = ValueError"
| "exc_of Dims_length_mismatch = ShapeError"

datatype warning = NO_TIME_INDEX_WARNING | NO_FREQ_INFO_WARNING | ImputationWarning

subsection \<open>Floating-point values and arrays\<close>

text \<open>
  A cell of a numeric array is a finite number, an infinity or not-a-number.  The code
  only tests, compares and copies cells, so the finite values are kept abstract as reals.
  \<open>np_equal\<close> is the comparison \<^verbatim>\<open>==\<close> of IEEE 754: NaN equals nothing.
\<close>

fun isfinite :: "number \<Rightarrow> bool" where
  "isfinite (Finite r) = True"
| "isfinite PosInf = False"
| "isfinite NegInf = False"
| "isfinite NaN = False"

fun isnan :: "number \<Rightarrow> bool" where
  "isnan NaN = True"
| "isnan (Finite r) = False"
| "isnan PosInf = False"
| "isnan NegInf = False"

definition np_equal :: "number \<Rightarrow> number \<Rightarrow> bool" where
  "np_equal a b = (\<not> isnan a \<and> \<not> isnan b \<and> a = b)"

text \<open>An \<^verbatim>\<open>ndarray\<close>: its shape and its cells in row-major order.\<close>

record 'a ndarray =
  shape :: "nat list"
  cells :: "'a list"

record masked_array =
  ma_data :: "number ndarray"
  ma_mask :: "bool ndarray"

text \<open>
  \<^verbatim>\<open>np.ma.masked_invalid\<close> masks every cell that is not finite (NaN and both
  infinities) and always returns a mask of the full shape; \<^verbatim>\<open>filled\<close> puts the
  fill value at the masked cells.
\<close>

definition masked_invalid :: "number ndarray \<Rightarrow> masked_array" where
  "masked_invalid a =
     \<lparr>ma_data = a,
      ma_mask = \<lparr>shape = shape a, cells = map (\<lambda>v. \<not> isfinite v) (cells a)\<rparr>\<rparr>"

definition filled :: "masked_array \<Rightarrow> number \<Rightarrow> number ndarray" where
  "filled m fill_value =
     \<lparr>shape = shape (ma_data m),
      cells = map2 (\<lambda>b v. if b then fill_value else v) (cells (ma_mask m)) (cells (ma_data m))\<rparr>"

definition np_any :: "bool ndarray \<Rightarrow> bool" where
  "np_any a = list_ex (\<lambda>b. b) (cells a)"

definition eq_scalar :: "number ndarray \<Rightarrow> number \<Rightarrow> bool ndarray" where
  "eq_scalar a x = \<lparr>shape = shape a, cells = map (\<lambda>v. np_equal v x) (cells a)\<rparr>"

subsection \<open>The missing-value masker\<close>

text \<open>
  \<^verbatim>\<open>mask_missing_values_in_data(values, missing_fill_value=None)\<close>.  The constant
  \<^verbatim>\<open>MISSING_FILL\<close> of \<^verbatim>\<open>constants.py\<close> is a parameter.
\<close>

definition mask_missing_values_in_data ::
  "number \<Rightarrow> number ndarray \<Rightarrow> number option \<Rightarrow>
   warning list \<times> (error + number ndarray \<times> bool ndarray)" where
  "mask_missing_values_in_data MISSING_FILL values missing_fill_value =
     (let fill_value = (case missing_fill_value of None \<Rightarrow> MISSING_FILL | Some f \<Rightarrow> f);
          masked_values = masked_invalid values;
          filled_values = filled masked_values fill_value;
          nan_mask = ma_mask masked_values
      in if np_any nan_mask then
           if np_any (eq_scalar values fill_value) then ([], Inl (Fill_collision fill_value))
           else ([ImputationWarning], Inr (filled_values, nan_mask))
         else ([], Inr (filled_values, nan_mask)))"

text \<open>
  The round trip of the specification: NaN is written back at every cell of the filled
  array where the mask is true.
\<close>

definition reinsert_nan :: "number ndarray \<Rightarrow> bool ndarray \<Rightarrow> number ndarray" where
  "reinsert_nan filled_values nan_mask =
     \<lparr>shape = shape filled_values,
      cells = map2 (\<lambda>v b. if b then NaN else v) (cells filled_values) (cells nan_mask)\<rparr>"

subsection \<open>Shape validation\<close>

text \<open>
  \<^verbatim>\<open>_validate_data_shape(data_shape, n_obs, obs_coords=None, check_col_names=False,
  col_names=None)\<close>.  With \<^verbatim>\<open>check_col_names\<close> set and \<^verbatim>\<open>obs_coords\<close> left at
  \<^verbatim>\<open>None\<close>, \<^verbatim>\<open>set(obs_coords)\<close> raises a type error.
\<close>

definition validate_data_shape ::
  "nat list \<Rightarrow> int \<Rightarrow> string list option \<Rightarrow> bool \<Rightarrow> string list option \<Rightarrow> error + unit" where
  "validate_data_shape data_shape n_obs obs_coords check_col_names col_names_opt =
     (let col_names = (case col_names_opt of None \<Rightarrow> [] | Some c \<Rightarrow> c)
      in if length data_shape \<noteq> 2 then Inl Data_not_2d
         else if int (last data_shape) \<noteq> n_obs
           then Inl (Shape_mismatch n_obs (last data_shape))
         else if check_col_names then
           (case obs_coords of
              None \<Rightarrow> Inl NoneType_not_iterable
            | Some oc \<Rightarrow>
                (let missing_cols = set oc - set col_names
                 in if card missing_cols > 0 then Inl (Missing_columns missing_cols)
                    else Inr ()))
         else Inr ())"

fun is_shape_error :: "error + unit \<Rightarrow> bool" where
  "is_shape_error (Inl Data_not_2d) = True"
| "is_shape_error (Inl (Shape_mismatch n k)) = True"
| "is_shape_error r = False"

fun is_missing_column_error :: "error + unit \<Rightarrow> bool" where
  "is_missing_column_error (Inl (Missing_columns m)) = True"
| "is_missing_column_error r = False"

subsection \<open>Row labels and labelled tables\<close>

text \<open>
  A row label or coordinate value is an integer, a float or a string.  \<open>label_eq\<close> is
  the element comparison of numpy: numbers compare by value, NaN equals nothing, and a
  string never equals a number.
\<close>

datatype label = IntLabel int | FloatLabel number | StrLabel string

fun label_eq :: "label \<Rightarrow> label \<Rightarrow> bool" where
  "label_eq (IntLabel i) (IntLabel j) = (i = j)"
| "label_eq (IntLabel i) (FloatLabel y) = np_equal (Finite (of_int i)) y"
| "label_eq (FloatLabel x) (IntLabel j) = np_equal x (Finite (of_int j))"
| "label_eq (FloatLabel x) (FloatLabel y) = np_equal x y"
| "label_eq (StrLabel s) (StrLabel t) = (s = t)"
| "label_eq a b = False"

text \<open>
  The kinds of row index \<^verbatim>\<open>preprocess_pandas_data\<close> tells apart: a
  \<^verbatim>\<open>DatetimeIndex\<close> (its time stamps, its \<^verbatim>\<open>freq\<close> and its
  \<^verbatim>\<open>inferred_freq\<close>), a \<^verbatim>\<open>RangeIndex\<close> (start, stop, step), a
  \<^verbatim>\<open>MultiIndex\<close> (its tuples), an index of an integer dtype and an index of any
  other dtype.  The integer dtype is \<^verbatim>\<open>int64\<close>, the dtype pandas gives an index of
  integers: a label is a word of 64 bits, read as a signed integer by \<open>sint\<close>.
\<close>

datatype pd_index =
    DatetimeIndex "int list" "string option" "string option"
  | RangeIndex int int int
  | MultiIndex "label list list"
  | IntegerIndex "64 word list"
  | OtherIndex "label list"

definition range_len :: "int \<Rightarrow> int \<Rightarrow> int \<Rightarrow> nat" where
  "range_len start stop step =
     (if 0 < step \<and> start < stop then nat ((stop - start - 1) div step + 1)
      else if step < 0 \<and> stop < start then nat ((start - stop - 1) div (- step) + 1)
      else 0)"


fun index_len :: "pd_index \<Rightarrow> nat" where
  "index_len (DatetimeIndex stamps freq inferred_freq) = length stamps"
| "index_len (RangeIndex start stop step) = range_len start stop step"
| "index_len (MultiIndex tuples) = length tuples"
| "index_len (IntegerIndex labels) = length labels"
| "index_len (OtherIndex labels) = length labels"

text \<open>
  A \<^verbatim>\<open>DataFrame\<close> has column names, a row index and its cells in row-major order;
  its shape is (number of rows, number of columns).  A \<^verbatim>\<open>Series\<close> has an optional
  name, a row index and one value per row.
\<close>

record dataframe =
  df_columns :: "string list"
  df_index :: pd_index
  df_cells :: "number list"

record series =
  sr_name :: "string option"
  sr_index :: pd_index
  sr_cells :: "number list"

datatype pandas_data = DataFrame dataframe | Series series

definition df_shape :: "dataframe \<Rightarrow> nat list" where
  "df_shape df = [index_len (df_index df), length (df_columns df)]"

definition df_values :: "dataframe \<Rightarrow> number ndarray" where
  "df_values df = \<lparr>shape = df_shape df, cells = df_cells df\<rparr>"

text \<open>
  Lines 82 to 85: a series without a name is named \<^verbatim>\<open>"data"\<close>, and the series
  becomes a table of one column.
\<close>

definition to_frame :: "series \<Rightarrow> dataframe" where
  "to_frame s =
     \<lparr>df_columns = [case sr_name s of None \<Rightarrow> ''data'' | Some n \<Rightarrow> n],
      df_index = sr_index s,
      df_cells = sr_cells s\<rparr>"

fun as_frame :: "pandas_data \<Rightarrow> dataframe" where
  "as_frame (Series s) = to_frame s"
| "as_frame (DataFrame df) = df"

text \<open>
  \<^verbatim>\<open>index.to_series().diff().dropna().values\<close>: the differences of neighbouring
  labels; the first entry of \<^verbatim>\<open>diff\<close> is missing and \<^verbatim>\<open>dropna\<close> removes it.
  pandas subtracts in the dtype of the labels, so a difference wraps around at 64 bits,
  and then converts it to a float, which keeps apart the difference 1 and every other
  difference.
\<close>

fun series_diff :: "64 word list \<Rightarrow> 64 word option list" where
  "series_diff [] = []"
| "series_diff (x # xs) = None # map2 (\<lambda>a b. Some (b - a)) (x # xs) xs"

definition dropna :: "64 word option list \<Rightarrow> 64 word list" where
  "dropna xs = List.map_filter (\<lambda>x. x) xs"


definition np_arange :: "nat \<Rightarrow> int list" where
  "np_arange n = map int [0..<n]"

subsection \<open>The preprocessors\<close>

text \<open>The index a preprocessor returns: the table's own index or a \<^verbatim>\<open>np.arange\<close>.\<close>

datatype row_index = PandasIndex pd_index | ArangeIndex "int list"

text \<open>\<^verbatim>\<open>preprocess_numpy_data(data, n_obs, obs_coords=None)\<close>.\<close>

definition preprocess_numpy_data ::
  "number ndarray \<Rightarrow> int \<Rightarrow> string list option \<Rightarrow>
   warning list \<times> (error + number ndarray \<times> row_index)" where
  "preprocess_numpy_data data n_obs obs_coords =
     (case validate_data_shape (shape data) n_obs obs_coords False None of
        Inl e \<Rightarrow> ([], Inl e)
      | Inr u \<Rightarrow>
          (if obs_coords \<noteq> None then [NO_TIME_INDEX_WARNING] else [],
           Inr (data, ArangeIndex (np_arange (hd (shape data))))))"

text \<open>
  \<^verbatim>\<open>preprocess_pandas_data(data, n_obs, obs_coords=None, check_column_names=False)\<close>.
  The shape is validated before the kind of the row index is looked at.
\<close>

definition preprocess_pandas_data ::
  "pandas_data \<Rightarrow> int \<Rightarrow> string list option \<Rightarrow> bool \<Rightarrow>
   warning list \<times> (error + number ndarray \<times> row_index)" where
  "preprocess_pandas_data data0 n_obs obs_coords check_column_names =
     (let data = as_frame data0;
          col_names = df_columns data;
          no_index = (if obs_coords \<noteq> None then [NO_TIME_INDEX_WARNING] else [])
      in case validate_data_shape (df_shape data) n_obs obs_coords check_column_names
                (Some col_names) of
           Inl e \<Rightarrow> ([], Inl e)
         | Inr u \<Rightarrow>
             (case df_index data of
                DatetimeIndex stamps freq inferred_freq \<Rightarrow>
                  (if freq = None
                   then ([NO_FREQ_INFO_WARNING],
                         Inr (df_values data,
                              PandasIndex (DatetimeIndex stamps inferred_freq inferred_freq)))
                   else ([], Inr (df_values data, PandasIndex (df_index data))))
              | RangeIndex start stop step \<Rightarrow>
                  (let r = preprocess_numpy_data (df_values data) n_obs obs_coords
                   in (no_index @ fst r, snd r))
              | MultiIndex tuples \<Rightarrow> (no_index, Inl MultiIndex_unsupported)
              | IntegerIndex labels \<Rightarrow>
                  (let index_diff = dropna (series_diff labels)
                   in if \<not> list_all (\<lambda>d. d = 1) index_diff
                      then (no_index, Inl Index_not_monotonic)
                      else (let r = preprocess_numpy_data (df_values data) n_obs obs_coords
                            in (no_index @ fst r, snd r)))
              | OtherIndex labels \<Rightarrow> (no_index, Inl Index_not_integer)))"

subsection \<open>Registration in the model context\<close>

text \<open>
  The ambient model of \<^verbatim>\<open>modelcontext(None)\<close> is passed explicitly.  Of the model
  only the dictionary \<^verbatim>\<open>coords\<close> is looked at: a name is absent, bound to
  \<^verbatim>\<open>None\<close>, or bound to a sequence of coordinate values.  \<^verbatim>\<open>add_coord\<close> of an
  absent name binds it to the values.
\<close>

record pymc_model =
  coords :: "string \<rightharpoonup> label list option"

definition add_coord :: "pymc_model \<Rightarrow> string \<Rightarrow> label list \<Rightarrow> pymc_model" where
  "add_coord m name vals = m\<lparr>coords := (coords m)(name \<mapsto> Some vals)\<rparr>"

text \<open>\<^verbatim>\<open>np.array_equal\<close> on two sequences: the same length and equal elements.\<close>

definition array_equal :: "label list \<Rightarrow> label list \<Rightarrow> bool" where
  "array_equal a1 a2 = (length a1 = length a2 \<and> list_all2 label_eq a1 a2)"

text \<open>
  Lines 142 to 151 of \<^verbatim>\<open>add_data_to_active_model\<close>: the shape hint and the call of
  \<^verbatim>\<open>pm.Data\<close>, which belongs to the modelling library and is a parameter here.  It
  gets the model and returns the model it leaves behind with its result or exception.
\<close>

definition declare_data ::
  "(pymc_model \<Rightarrow> string \<Rightarrow> number ndarray \<Rightarrow> string list \<Rightarrow> nat option list
      \<Rightarrow> pymc_model \<times> (error + 'd)) \<Rightarrow>
   pymc_model \<Rightarrow> number ndarray \<Rightarrow> string list \<Rightarrow> pymc_model \<times> (error + 'd)" where
  "declare_data pm_Data pymc_mod values data_dims =
     (if shape values = [] then (pymc_mod, Inl Tuple_index_out_of_range)
      else
        (let data_shape =
               (if last (shape values) = 1 \<or> length (shape values) = 1 then [None, Some 1]
                else [None, Some (last (shape values))])
         in pm_Data pymc_mod ''data'' values data_dims data_shape))"

text \<open>
  \<^verbatim>\<open>add_data_to_active_model(values, index, data_dims=None)\<close>.  The constants
  \<^verbatim>\<open>TIME_DIM\<close> and \<^verbatim>\<open>OBS_STATE_DIM\<close> of \<^verbatim>\<open>constants.py\<close> are parameters;
  \<open>index\<close> is the sequence of the index's values, \<^verbatim>\<open>tuple(index)\<close>.
\<close>

definition add_data_to_active_model ::
  "(pymc_model \<Rightarrow> string \<Rightarrow> number ndarray \<Rightarrow> string list \<Rightarrow> nat option list
      \<Rightarrow> pymc_model \<times> (error + 'd)) \<Rightarrow>
   string \<Rightarrow> string \<Rightarrow> pymc_model \<Rightarrow> number ndarray \<Rightarrow> label list \<Rightarrow> string list option \<Rightarrow>
   pymc_model \<times> (error + 'd)" where
  "add_data_to_active_model pm_Data TIME_DIM OBS_STATE_DIM pymc_mod values index data_dims_opt =
     (let data_dims = (case data_dims_opt of None \<Rightarrow> [TIME_DIM, OBS_STATE_DIM] | Some d \<Rightarrow> d)
      in case data_dims of
           [] \<Rightarrow> (pymc_mod, Inl List_index_out_of_range)
         | time_dim # rest \<Rightarrow>
             (case coords pymc_mod time_dim of
                None \<Rightarrow> declare_data pm_Data (add_coord pymc_mod time_dim index) values data_dims
              | Some found_time \<Rightarrow>
                  (case found_time of
                     None \<Rightarrow>
                       declare_data pm_Data
                         (pymc_mod\<lparr>coords := (coords pymc_mod)(time_dim \<mapsto> Some index)\<rparr>)
                         values data_dims
                   | Some ft \<Rightarrow>
                       if \<not> array_equal ft index then (pymc_mod, Inl Time_index_conflict)
                       else declare_data pm_Data pymc_mod values data_dims)))"

text \<open>
  \<^verbatim>\<open>pm.Data(name, value, dims=..., shape=...)\<close> of the modelling library, as far as
  the coordinates go: it rejects dimension names that are not as many as the axes of the
  value, registers every dimension name that is not registered yet, bound to
  \<^verbatim>\<open>None\<close>, and returns the data variable.
\<close>

record data_var =
  dv_name :: string
  dv_value :: "number ndarray"
  dv_dims :: "string list"
  dv_shape :: "nat option list"

fun register_dims :: "pymc_model \<Rightarrow> string list \<Rightarrow> pymc_model" where
  "register_dims m [] = m"
| "register_dims m (dname # dims) =
     register_dims
       (if coords m dname = None then m\<lparr>coords := (coords m)(dname \<mapsto> None)\<rparr> else m) dims"

definition pymc_Data ::
  "pymc_model \<Rightarrow> string \<Rightarrow> number ndarray \<Rightarrow> string list \<Rightarrow> nat option list
     \<Rightarrow> pymc_model \<times> (error + data_var)" where
  "pymc_Data m name data_value dims shape_hint =
     (if length dims \<noteq> length (shape data_value) then (m, Inl Dims_length_mismatch)
      else (register_dims m dims,
            Inr \<lparr>dv_name = name, dv_value = data_value, dv_dims = dims, dv_shape = shape_hint\<rparr>))"

subsection \<open>The forward simulator of the test utilities\<close>

text \<open>
  \<^verbatim>\<open>simulate_from_numpy_model\<close> of \<^verbatim>\<open>tests/statespace/test_utilities.py\<close>.  The
  arithmetic of the arrays is exact arithmetic on reals.  An operand is a scalar or a
  one-dimensional array, a matrix is the list of its rows, and the observation matrix is
  two-dimensional or, when it varies in time, a sequence of matrices.
\<close>

type_synonym vec = "real list"

type_synonym mat = "real list list"

datatype nd = Scalar real | Vector vec

datatype obs_matrix = Z_2d mat | Z_3d "mat list"

definition bind_err :: "error + 'a \<Rightarrow> ('a \<Rightarrow> error + 'b) \<Rightarrow> error + 'b" where
  "bind_err r f = (case r of Inl e \<Rightarrow> Inl e | Inr a \<Rightarrow> f a)"

definition dot :: "vec \<Rightarrow> vec \<Rightarrow> real" where
  "dot u v = sum_list (map2 (*) u v)"

text \<open>The product of a matrix and a vector, without and with the check of the sizes.\<close>

definition mv :: "mat \<Rightarrow> vec \<Rightarrow> vec" where
  "mv M v = map (\<lambda>row. dot row v) M"

definition matvec :: "mat \<Rightarrow> vec \<Rightarrow> error + vec" where
  "matvec M v =
     (if list_all (\<lambda>row. length row = length v) M then Inr (mv M v) else Inl Matmul_mismatch)"

text \<open>Addition with the broadcasting of numpy.\<close>

fun np_add :: "nd \<Rightarrow> nd \<Rightarrow> error + nd" where
  "np_add (Scalar a) (Scalar b) = Inr (Scalar (a + b))"
| "np_add (Scalar a) (Vector v) = Inr (Vector (map (\<lambda>x. a + x) v))"
| "np_add (Vector u) (Scalar b) = Inr (Vector (map (\<lambda>x. x + b) u))"
| "np_add (Vector u) (Vector v) =
     (if length u = length v then Inr (Vector (map2 (+) u v))
      else if length u = 1 then Inr (Vector (map (\<lambda>x. hd u + x) v))
      else if length v = 1 then Inr (Vector (map (\<lambda>x. x + hd v) u))
      else Inl Broadcast_error)"

text \<open>\<^verbatim>\<open>squeeze\<close> of a one-dimensional array: an array of one element becomes a scalar.\<close>

fun squeeze_vec :: "vec \<Rightarrow> nd" where
  "squeeze_vec [a] = Scalar a"
| "squeeze_vec v = Vector v"

text \<open>The row that the assignment \<^verbatim>\<open>a[t] = value\<close> writes into an array of \<open>k\<close> columns.\<close>

fun row_of :: "nat \<Rightarrow> nd \<Rightarrow> error + vec" where
  "row_of k (Scalar a) = Inr (replicate k a)"
| "row_of k (Vector v) =
     (if length v = k then Inr v
      else if length v = 1 then Inr (replicate k (hd v))
      else Inl Broadcast_error)"

text \<open>\<^verbatim>\<open>np.allclose(H, 0)\<close> with the default tolerances.\<close>

definition allclose_zero :: "mat \<Rightarrow> bool" where
  "allclose_zero M = list_all (list_all (\<lambda>h. \<bar>h\<bar> \<le> 1 / 10 ^ 8)) M"

definition is_zero_matrix :: "mat \<Rightarrow> bool" where
  "is_zero_matrix M = list_all (list_all (\<lambda>q. q = 0)) M"

text \<open>
  \<^verbatim>\<open>rng.multivariate_normal(mean, cov)\<close>: the sampler of the random generator is the
  parameter \<open>sampler\<close>, which takes the generator's state and returns the draw and the
  next state; numpy rejects a mean and a covariance of different sizes.
\<close>

definition multivariate_normal ::
  "('g \<Rightarrow> vec \<Rightarrow> mat \<Rightarrow> vec \<times> 'g) \<Rightarrow> 'g \<Rightarrow> vec \<Rightarrow> mat \<Rightarrow> error + vec \<times> 'g" where
  "multivariate_normal sampler rng mean cov =
     (if length cov = length mean \<and> list_all (\<lambda>row. length row = length mean) cov
      then Inr (sampler rng mean cov) else Inl Mean_cov_length_mismatch)"

text \<open>\<^verbatim>\<open>Z\<close> when \<^verbatim>\<open>Z.ndim == 2\<close>, and \<^verbatim>\<open>Z[t]\<close> otherwise.\<close>

fun obs_at :: "obs_matrix \<Rightarrow> nat \<Rightarrow> error + mat" where
  "obs_at (Z_2d M) t = Inr M"
| "obs_at (Z_3d Ms) t = (if t < length Ms then Inr (Ms ! t) else Inl Array_index_out_of_bounds)"

text \<open>The body of the loop (lines 259 to 274) at step \<open>t\<close>, on the arrays \<open>x\<close>, \<open>y\<close>.\<close>

definition sim_step ::
  "('g \<Rightarrow> vec \<Rightarrow> mat \<Rightarrow> vec \<times> 'g) \<Rightarrow> nat \<Rightarrow> nat \<Rightarrow> nat \<Rightarrow>
   vec \<Rightarrow> vec \<Rightarrow> mat \<Rightarrow> obs_matrix \<Rightarrow> mat \<Rightarrow> mat \<Rightarrow> mat \<Rightarrow>
   nat \<Rightarrow> mat \<times> mat \<times> 'g \<Rightarrow> error + mat \<times> mat \<times> 'g" where
  "sim_step sampler k_endog k_states k_posdef c d T Z R H Q t s =
     (case s of (x, y, rng) \<Rightarrow>
        bind_err
          (if k_posdef > 0 then
             bind_err (multivariate_normal sampler rng (replicate k_posdef 0) Q)
               (\<lambda>(shock, rng1). bind_err (matvec R shock) (\<lambda>innov. Inr (Vector innov, rng1)))
           else Inr (Scalar 0, rng))
          (\<lambda>(innov, rng1).
        bind_err
          (if \<not> allclose_zero H then
             bind_err (multivariate_normal sampler rng1 (replicate 1 0) H)
               (\<lambda>(error, rng2). Inr (Vector error, rng2))
           else Inr (Scalar 0, rng1))
          (\<lambda>(error, rng2).
        bind_err (matvec T (x ! (t - 1))) (\<lambda>Tx.
        bind_err (np_add (Vector c) (Vector Tx)) (\<lambda>cTx.
        bind_err (np_add cTx innov) (\<lambda>xt.
        bind_err (row_of k_states xt) (\<lambda>x_row.
        bind_err (obs_at Z t) (\<lambda>Zt.
        bind_err (matvec Zt x_row) (\<lambda>Zx.
        bind_err (np_add (Vector d) (Vector Zx)) (\<lambda>dZx.
        bind_err (np_add dZx error) (\<lambda>yt.
        bind_err (row_of k_endog (case yt of Scalar a \<Rightarrow> Scalar a | Vector v \<Rightarrow> squeeze_vec v))
          (\<lambda>y_row. Inr (x[t := x_row], y[t := y_row], rng2)))))))))))))"

text \<open>\<^verbatim>\<open>for t in range(1, steps)\<close>, given the list of the values of \<open>t\<close>.\<close>

fun sim_loop ::
  "('g \<Rightarrow> vec \<Rightarrow> mat \<Rightarrow> vec \<times> 'g) \<Rightarrow> nat \<Rightarrow> nat \<Rightarrow> nat \<Rightarrow>
   vec \<Rightarrow> vec \<Rightarrow> mat \<Rightarrow> obs_matrix \<Rightarrow> mat \<Rightarrow> mat \<Rightarrow> mat \<Rightarrow>
   nat list \<Rightarrow> mat \<times> mat \<times> 'g \<Rightarrow> error + mat \<times> mat \<times> 'g" where
  "sim_loop sampler k_endog k_states k_posdef c d T Z R H Q [] s = Inr s"
| "sim_loop sampler k_endog k_states k_posdef c d T Z R H Q (t # ts) s =
     bind_err (sim_step sampler k_endog k_states k_posdef c d T Z R H Q t s)
       (sim_loop sampler k_endog k_states k_posdef c d T Z R H Q ts)"

text \<open>
  The simulator, on the matrices that \<^verbatim>\<open>unpack_symbolic_matrices_with_params\<close>
  returns and the three sizes of the model.  It returns the states, the squeezed
  observations and the state the generator is left in.
\<close>

definition simulate_from_numpy_model ::
  "('g \<Rightarrow> vec \<Rightarrow> mat \<Rightarrow> vec \<times> 'g) \<Rightarrow> nat \<Rightarrow> nat \<Rightarrow> nat \<Rightarrow>
   vec \<Rightarrow> vec \<Rightarrow> vec \<Rightarrow> mat \<Rightarrow> obs_matrix \<Rightarrow> mat \<Rightarrow> mat \<Rightarrow> mat \<Rightarrow>
   'g \<Rightarrow> nat \<Rightarrow> error + mat \<times> real ndarray \<times> 'g" where
  "simulate_from_numpy_model sampler k_endog k_states k_posdef x0 c d T Z R H Q rng steps =
     (let x = replicate steps (replicate k_states 0);
          y = replicate steps (replicate k_endog 0)
      in if steps = 0 then Inl Array_index_out_of_bounds
         else
           bind_err (row_of k_states (Vector x0)) (\<lambda>x_row.
           bind_err (obs_at Z 0) (\<lambda>Z0.
           bind_err (matvec Z0 x0) (\<lambda>Zx.
           bind_err (row_of k_endog (squeeze_vec Zx)) (\<lambda>y_row.
           bind_err
             (if \<not> allclose_zero H then
                bind_err (multivariate_normal sampler rng (replicate 1 0) H)
                  (\<lambda>(error, rng1).
                bind_err (np_add (Vector y_row) (squeeze_vec error)) (\<lambda>y0.
                bind_err (row_of k_endog y0) (\<lambda>y_row1. Inr (y_row1, rng1))))
              else Inr (y_row, rng))
             (\<lambda>(y_row1, rng1).
           bind_err
             (sim_loop sampler k_endog k_states k_posdef c d T Z R H Q [1..<steps]
                (x[0 := x_row], y[0 := y_row1], rng1))
             (\<lambda>(x, y, rng2).
                Inr (x, \<lparr>shape = filter (\<lambda>n. n \<noteq> 1) [steps, k_endog], cells = concat y\<rparr>,
                     rng2))))))))"

text \<open>
  The shapes the matrices of a statespace model have, and a generator whose draw from a
  normal distribution of covariance zero is the mean.
\<close>

definition has_shape :: "mat \<Rightarrow> nat \<Rightarrow> nat \<Rightarrow> bool" where
  "has_shape M rows cols = (length M = rows \<and> list_all (\<lambda>row. length row = cols) M)"

fun obs_has_shape :: "obs_matrix \<Rightarrow> nat \<Rightarrow> nat \<Rightarrow> nat \<Rightarrow> bool" where
  "obs_has_shape (Z_2d M) steps rows cols = has_shape M rows cols"
| "obs_has_shape (Z_3d Ms) steps rows cols =
     (steps \<le> length Ms \<and> list_all (\<lambda>M. has_shape M rows cols) Ms)"

definition well_shaped ::
  "nat \<Rightarrow> nat \<Rightarrow> nat \<Rightarrow> vec \<Rightarrow> vec \<Rightarrow> vec \<Rightarrow> mat \<Rightarrow> obs_matrix \<Rightarrow> mat \<Rightarrow> mat \<Rightarrow> mat \<Rightarrow> nat
     \<Rightarrow> bool" where
  "well_shaped k_endog k_states k_posdef x0 c d T Z R H Q steps =
     (length x0 = k_states \<and> length c = k_states \<and> length d = k_endog \<and>
      has_shape T k_states k_states \<and> obs_has_shape Z steps k_endog k_states \<and>
      has_shape R k_states k_posdef \<and> has_shape H k_endog k_endog \<and>
      has_shape Q k_posdef k_posdef)"

definition degenerate_at_zero :: "('g \<Rightarrow> vec \<Rightarrow> mat \<Rightarrow> vec \<times> 'g) \<Rightarrow> bool" where
  "degenerate_at_zero sampler =
     (\<forall>rng mean cov. is_zero_matrix cov \<longrightarrow> fst (sampler rng mean cov) = mean)"

section \<open>Properties\<close>

subsection \<open>Shape validation\<close>

text \<open>
  C5.  Shape validation raises a value error when the shape is not of rank 2 ("Data must
  be a 2d matrix") and when it is of rank 2 with a last axis other than \<open>n_obs\<close>, the
  error then carrying the expected count \<open>n_obs\<close> and the count found; for a shape of
  rank 2 whose last axis is \<open>n_obs\<close> it raises no shape error.
\<close>

theorem validate_data_shape_shape_error:
  "(length data_shape \<noteq> 2 \<longrightarrow>
      validate_data_shape data_shape n_obs obs_coords chk col_names = Inl Data_not_2d \<and>
      exc_of Data_not_2d = ValueError) \<and>
   (length data_shape = 2 \<and> int (last data_shape) \<noteq> n_obs \<longrightarrow>
      validate_data_shape data_shape n_obs obs_coords chk col_names
        = Inl (Shape_mismatch n_obs (last data_shape)) \<and>
      exc_of (Shape_mismatch n_obs (last data_shape)) = ValueError) \<and>
   (length data_shape = 2 \<and> int (last data_shape) = n_obs \<longrightarrow>
      \<not> is_shape_error (validate_data_shape data_shape n_obs obs_coords chk col_names))"
  by (simp add: validate_data_shape_def Let_def split: option.split)

theorem validate_data_shape_shape_error_witness:
  "validate_data_shape [10] 1 None False None = Inl Data_not_2d \<and>
   validate_data_shape [10, 3] 2 None False None = Inl (Shape_mismatch 2 3) \<and>
   \<not> is_shape_error (validate_data_shape [10, 2] 2 None False None)"
  using validate_data_shape_shape_error [of "[10]" 1 None False None]
    validate_data_shape_shape_error [of "[10, 3]" 2 None False None]
    validate_data_shape_shape_error [of "[10, 2]" 2 None False None]
  by simp


text \<open>
  C9.  Once the shape checks have passed and the cross-check of the column names is
  requested, the missing-column error is raised exactly when some expected label of
  \<open>obs_coords\<close> is not among the column names; with every expected label present the
  validation succeeds, whatever further columns the container has.
\<close>

theorem validate_data_shape_missing_columns:
  assumes "length data_shape = 2" and "int (last data_shape) = n_obs"
  shows "is_missing_column_error
           (validate_data_shape data_shape n_obs (Some obs_coords) True (Some col_names))
         = (\<exists>c \<in> set obs_coords. c \<notin> set col_names) \<and>
         (set obs_coords \<subseteq> set col_names \<longrightarrow>
            validate_data_shape data_shape n_obs (Some obs_coords) True (Some col_names)
              = Inr ()) \<and>
         (\<not> set obs_coords \<subseteq> set col_names \<longrightarrow>
            validate_data_shape data_shape n_obs (Some obs_coords) True (Some col_names)
              = Inl (Missing_columns (set obs_coords - set col_names)))"
proof -
  have "(card (set obs_coords - set col_names) > 0) = (\<not> set obs_coords \<subseteq> set col_names)"
    by (simp add: card_gt_0_iff)
  with assms show ?thesis
    by (auto simp: validate_data_shape_def Let_def)
qed

theorem validate_data_shape_missing_columns_witness:
  "is_missing_column_error
     (validate_data_shape [5, 2] 2 (Some [''a'', ''b'']) True (Some [''a'', ''c'']))
   \<and> validate_data_shape [5, 3] 3 (Some [''a'', ''b'']) True (Some [''c'', ''b'', ''a''])
       = Inr ()"
  using validate_data_shape_missing_columns [of "[5, 2]" 2 "[''a'', ''b'']" "[''a'', ''c'']"]
    validate_data_shape_missing_columns [of "[5, 3]" 3 "[''a'', ''b'']" "[''c'', ''b'', ''a'']"]
  by simp

subsection \<open>The missing-value masker\<close>

lemma np_any_masked_invalid:
  "np_any (ma_mask (masked_invalid a)) = (\<exists>v \<in> set (cells a). \<not> isfinite v)"
  by (simp add: np_any_def masked_invalid_def list_ex_iff)

lemma np_any_eq_scalar:
  "np_any (eq_scalar a x) = (\<exists>v \<in> set (cells a). np_equal v x)"
  by (simp add: np_any_def eq_scalar_def list_ex_iff)

lemma filled_masked_invalid_nth:
  "i < length (cells a) \<Longrightarrow>
   cells (filled (masked_invalid a) f) ! i = (if isfinite (cells a ! i) then cells a ! i else f)"
  by (simp add: filled_def masked_invalid_def)

lemma mask_missing_values_in_data_Inr:
  assumes "snd (mask_missing_values_in_data MISSING_FILL values missing_fill_value)
             = Inr (filled_values, nan_mask)"
  shows "filled_values = filled (masked_invalid values)
           (case missing_fill_value of None \<Rightarrow> MISSING_FILL | Some f \<Rightarrow> f)"
    and "nan_mask = ma_mask (masked_invalid values)"
  using assms
  by (auto simp: mask_missing_values_in_data_def Let_def split: if_splits)

text \<open>
  C1 fails as stated: \<^verbatim>\<open>np.ma.masked_invalid\<close> masks the infinities too.  The 1 x 1
  matrix holding \<open>+inf\<close> comes back with a true mask and the sentinel in its cell,
  although the source value is not NaN.
\<close>

theorem mask_missing_values_nan_only_counterexample:
  "snd (mask_missing_values_in_data (Finite (- 9999)) \<lparr>shape = [1, 1], cells = [PosInf]\<rparr> None)
     = Inr (\<lparr>shape = [1, 1], cells = [Finite (- 9999)]\<rparr>, \<lparr>shape = [1, 1], cells = [True]\<rparr>)
   \<and> \<not> isnan PosInf"
  by (simp add: mask_missing_values_in_data_def Let_def masked_invalid_def filled_def np_any_def
      eq_scalar_def np_equal_def)

text \<open>
  C1, amended.  Whenever the masker returns, the mask and the filled matrix have the shape
  and the number of cells of the input; the mask is true exactly at the cells whose
  source value is not finite (NaN, \<open>+inf\<close> or \<open>-inf\<close>), and the filled matrix is the
  input with exactly those cells replaced by the sentinel.
\<close>

theorem mask_missing_values_mask_and_fill:
  assumes "snd (mask_missing_values_in_data MISSING_FILL values missing_fill_value)
             = Inr (filled_values, nan_mask)"
  shows "shape nan_mask = shape values \<and> shape filled_values = shape values \<and>
         length (cells nan_mask) = length (cells values) \<and>
         length (cells filled_values) = length (cells values) \<and>
         (\<forall>i < length (cells values).
            cells nan_mask ! i = (\<not> isfinite (cells values ! i)) \<and>
            cells filled_values ! i =
              (if isfinite (cells values ! i) then cells values ! i
               else (case missing_fill_value of None \<Rightarrow> MISSING_FILL | Some f \<Rightarrow> f)))"
proof -
  note r = mask_missing_values_in_data_Inr [OF assms]
  have "shape nan_mask = shape values" "shape filled_values = shape values"
    "length (cells nan_mask) = length (cells values)"
    "length (cells filled_values) = length (cells values)"
    unfolding r by (simp_all add: filled_def masked_invalid_def)
  moreover have "cells nan_mask ! i = (\<not> isfinite (cells values ! i))"
    if "i < length (cells values)" for i
    unfolding r using that by (simp add: masked_invalid_def)
  moreover have "cells filled_values ! i =
      (if isfinite (cells values ! i) then cells values ! i
       else (case missing_fill_value of None \<Rightarrow> MISSING_FILL | Some f \<Rightarrow> f))"
    if "i < length (cells values)" for i
    unfolding r using that by (rule filled_masked_invalid_nth)
  ultimately show ?thesis by blast
qed

theorem mask_missing_values_mask_and_fill_witness:
  "snd (mask_missing_values_in_data (Finite (- 9999))
          \<lparr>shape = [2, 2], cells = [Finite 1, NaN, NegInf, Finite 4]\<rparr> None)
     = Inr (\<lparr>shape = [2, 2], cells = [Finite 1, Finite (- 9999), Finite (- 9999), Finite 4]\<rparr>,
            \<lparr>shape = [2, 2], cells = [False, True, True, False]\<rparr>)
   \<and> shape \<lparr>shape = [2, 2], cells = [False, True, True, False]\<rparr> = [2, 2]
   \<and> cells \<lparr>shape = [2, 2], cells = [False, True, True, False]\<rparr> ! 2
       = (\<not> isfinite (cells \<lparr>shape = [2, 2], cells = [Finite 1, NaN, NegInf, Finite 4]\<rparr> ! 2))"
proof -
  have r: "snd (mask_missing_values_in_data (Finite (- 9999))
          \<lparr>shape = [2, 2], cells = [Finite 1, NaN, NegInf, Finite 4]\<rparr> None)
     = Inr (\<lparr>shape = [2, 2], cells = [Finite 1, Finite (- 9999), Finite (- 9999), Finite 4]\<rparr>,
            \<lparr>shape = [2, 2], cells = [False, True, True, False]\<rparr>)"
    by (simp add: mask_missing_values_in_data_def Let_def masked_invalid_def filled_def
        np_any_def eq_scalar_def np_equal_def)
  from mask_missing_values_mask_and_fill [OF r] r show ?thesis
    by simp
qed


text \<open>
  C2 fails as stated: an input without any NaN is rejected when it holds an infinity
  and the sentinel.
\<close>

theorem mask_missing_values_collision_counterexample:
  "snd (mask_missing_values_in_data (Finite (- 9999))
          \<lparr>shape = [2, 1], cells = [PosInf, Finite (- 9999)]\<rparr> None)
     = Inl (Fill_collision (Finite (- 9999)))
   \<and> \<not> list_ex isnan [PosInf, Finite (- 9999)]"
  by (simp add: mask_missing_values_in_data_def Let_def masked_invalid_def np_any_def
      eq_scalar_def np_equal_def)

text \<open>
  C2, amended.  The masker raises, and then its sentinel-collision value error, if and
  only if the input holds at least one value that is not finite (NaN, \<open>+inf\<close> or
  \<open>-inf\<close>) and some input value compares equal to the sentinel; in particular every
  input whose values are all finite is accepted, also when the sentinel is among them.
\<close>

theorem mask_missing_values_collision_iff:
  "isl (snd (mask_missing_values_in_data MISSING_FILL values missing_fill_value))
     = ((\<exists>v \<in> set (cells values). \<not> isfinite v) \<and>
        (\<exists>v \<in> set (cells values).
           np_equal v (case missing_fill_value of None \<Rightarrow> MISSING_FILL | Some f \<Rightarrow> f))) \<and>
   (isl (snd (mask_missing_values_in_data MISSING_FILL values missing_fill_value)) \<longrightarrow>
      (\<exists>f. snd (mask_missing_values_in_data MISSING_FILL values missing_fill_value)
              = Inl (Fill_collision f) \<and> exc_of (Fill_collision f) = ValueError)) \<and>
   ((\<forall>v \<in> set (cells values). isfinite v) \<longrightarrow>
      \<not> isl (snd (mask_missing_values_in_data MISSING_FILL values missing_fill_value)))"
  by (auto simp: mask_missing_values_in_data_def Let_def np_any_masked_invalid
      np_any_eq_scalar)

theorem mask_missing_values_collision_iff_witness:
  "isl (snd (mask_missing_values_in_data (Finite (- 9999))
          \<lparr>shape = [3, 1], cells = [Finite (- 9999), NaN, Finite 2]\<rparr> None)) \<and>
   \<not> isl (snd (mask_missing_values_in_data (Finite (- 9999))
          \<lparr>shape = [2, 1], cells = [Finite (- 9999), Finite 2]\<rparr> None))"
  using mask_missing_values_collision_iff [of "Finite (- 9999)"
      "\<lparr>shape = [3, 1], cells = [Finite (- 9999), NaN, Finite 2]\<rparr>" None]
    mask_missing_values_collision_iff [of "Finite (- 9999)"
      "\<lparr>shape = [2, 1], cells = [Finite (- 9999), Finite 2]\<rparr>" None]
  by (simp add: np_equal_def)

text \<open>
  C3 fails as stated: an infinite cell is masked, so the round trip writes NaN where
  the original matrix holds \<open>+inf\<close>, a position that is not NaN.
\<close>

theorem mask_round_trip_counterexample:
  "snd (mask_missing_values_in_data (Finite (- 9999))
          \<lparr>shape = [1, 2], cells = [PosInf, Finite 3]\<rparr> None)
     = Inr (\<lparr>shape = [1, 2], cells = [Finite (- 9999), Finite 3]\<rparr>,
            \<lparr>shape = [1, 2], cells = [True, False]\<rparr>) \<and>
   cells (reinsert_nan \<lparr>shape = [1, 2], cells = [Finite (- 9999), Finite 3]\<rparr>
            \<lparr>shape = [1, 2], cells = [True, False]\<rparr>) ! 0 = NaN \<and>
   cells \<lparr>shape = [1, 2], cells = [PosInf, Finite 3]\<rparr> ! 0 = PosInf \<and>
   \<not> isnan PosInf \<and> NaN \<noteq> PosInf"
  by (simp add: mask_missing_values_in_data_def Let_def masked_invalid_def filled_def
      np_any_def eq_scalar_def np_equal_def reinsert_nan_def)

text \<open>
  C3, amended.  For every matrix the masker accepts, writing NaN back into the filled
  matrix wherever the mask is true gives a matrix of the same shape that agrees with the
  original at every finite position and holds NaN at every other position (so an
  infinite cell comes back as NaN).
\<close>

theorem mask_round_trip:
  assumes "snd (mask_missing_values_in_data MISSING_FILL values missing_fill_value)
             = Inr (filled_values, nan_mask)"
  shows "shape (reinsert_nan filled_values nan_mask) = shape values \<and>
         length (cells (reinsert_nan filled_values nan_mask)) = length (cells values) \<and>
         (\<forall>i < length (cells values).
            cells (reinsert_nan filled_values nan_mask) ! i
              = (if isfinite (cells values ! i) then cells values ! i else NaN))"
proof -
  note r = mask_missing_values_in_data_Inr [OF assms]
  show ?thesis
    unfolding r by (simp add: reinsert_nan_def filled_def masked_invalid_def)
qed

theorem mask_round_trip_witness:
  "cells (reinsert_nan \<lparr>shape = [1, 3], cells = [Finite 1, Finite (- 9999), Finite 3]\<rparr>
            \<lparr>shape = [1, 3], cells = [False, True, False]\<rparr>)
     = [Finite 1, NaN, Finite 3] \<and>
   snd (mask_missing_values_in_data (Finite (- 9999))
          \<lparr>shape = [1, 3], cells = [Finite 1, NaN, Finite 3]\<rparr> None)
     = Inr (\<lparr>shape = [1, 3], cells = [Finite 1, Finite (- 9999), Finite 3]\<rparr>,
            \<lparr>shape = [1, 3], cells = [False, True, False]\<rparr>)"
proof -
  have r: "snd (mask_missing_values_in_data (Finite (- 9999))
          \<lparr>shape = [1, 3], cells = [Finite 1, NaN, Finite 3]\<rparr> None)
     = Inr (\<lparr>shape = [1, 3], cells = [Finite 1, Finite (- 9999), Finite 3]\<rparr>,
            \<lparr>shape = [1, 3], cells = [False, True, False]\<rparr>)"
    by (simp add: mask_missing_values_in_data_def Let_def masked_invalid_def filled_def
        np_any_def eq_scalar_def np_equal_def)
  from mask_round_trip [OF r] r show ?thesis
    by (simp add: reinsert_nan_def)
qed


subsection \<open>Preprocessing of labelled tables\<close>









text \<open>
  C8 fails as stated: the shape is validated first, so a table with hierarchical row
  labels and a wrong number of columns fails with the shape-mismatch value error
  instead of the not-implemented error.
\<close>

theorem preprocess_pandas_multiindex_counterexample:
  "snd (preprocess_pandas_data
          (DataFrame \<lparr>df_columns = [''a'', ''b''],
                      df_index = MultiIndex [[IntLabel 0, StrLabel ''x'']],
                      df_cells = [Finite 1, Finite 2]\<rparr>) 1 None False)
     = Inl (Shape_mismatch 1 2) \<and>
   exc_of (Shape_mismatch 1 2) \<noteq> NotImplementedError"
  by (simp add: preprocess_pandas_data_def validate_data_shape_def df_shape_def Let_def)

text \<open>
  C8, amended.  For every table input whose row index is hierarchical, preprocessing
  fails whatever the table holds: with the error of the validation of shape and column
  names when that validation fails, and with the not-implemented error in every other
  case.
\<close>

theorem preprocess_pandas_multiindex:
  assumes "df_index (as_frame data) = MultiIndex tuples"
  shows "snd (preprocess_pandas_data data n_obs obs_coords chk)
           = (case validate_data_shape (df_shape (as_frame data)) n_obs obs_coords chk
                     (Some (df_columns (as_frame data))) of
                Inl e \<Rightarrow> Inl e
              | Inr u \<Rightarrow> Inl MultiIndex_unsupported) \<and>
         isl (snd (preprocess_pandas_data data n_obs obs_coords chk)) \<and>
         exc_of MultiIndex_unsupported = NotImplementedError"
  using assms by (simp add: preprocess_pandas_data_def Let_def split: sum.split)

theorem preprocess_pandas_multiindex_witness:
  "snd (preprocess_pandas_data
          (Series \<lparr>sr_name = None,
                   sr_index = MultiIndex [[IntLabel 0, StrLabel ''x''], [IntLabel 0, StrLabel ''y'']],
                   sr_cells = [Finite 1, NaN]\<rparr>) 1 None False)
     = Inl MultiIndex_unsupported"
  using preprocess_pandas_multiindex [of
      "Series \<lparr>sr_name = None,
               sr_index = MultiIndex [[IntLabel 0, StrLabel ''x''], [IntLabel 0, StrLabel ''y'']],
               sr_cells = [Finite 1, NaN]\<rparr>"
      "[[IntLabel 0, StrLabel ''x''], [IntLabel 0, StrLabel ''y'']]" 1 None False]
  by (simp add: to_frame_def validate_data_shape_def df_shape_def)


subsection \<open>Registration of the time coordinate\<close>

text \<open>
  C6.  Let \<open>time_dim\<close> be the first of the dimension names.  If \<open>time_dim\<close> is absent
  from the coordinates of the model context, it is created with the index; if it is
  present and bound to \<^verbatim>\<open>None\<close>, it is replaced by the index; in both cases the
  registration goes on to declare the data in the context so updated.  If it is present
  and bound to a coordinate sequence that \<^verbatim>\<open>np.array_equal\<close> finds different from
  the index, registration fails with a value error and the context is as it was.
\<close>

theorem add_data_to_active_model_time_coord:
  assumes "(case data_dims_opt of None \<Rightarrow> [TIME_DIM, OBS_STATE_DIM] | Some d \<Rightarrow> d)
             = time_dim # rest"
  shows "(coords pymc_mod time_dim = None \<longrightarrow>
            add_data_to_active_model pm_Data TIME_DIM OBS_STATE_DIM pymc_mod vals index
                data_dims_opt
              = declare_data pm_Data
                  (pymc_mod\<lparr>coords := (coords pymc_mod)(time_dim \<mapsto> Some index)\<rparr>)
                  vals (time_dim # rest)) \<and>
         (coords pymc_mod time_dim = Some None \<longrightarrow>
            add_data_to_active_model pm_Data TIME_DIM OBS_STATE_DIM pymc_mod vals index
                data_dims_opt
              = declare_data pm_Data
                  (pymc_mod\<lparr>coords := (coords pymc_mod)(time_dim \<mapsto> Some index)\<rparr>)
                  vals (time_dim # rest)) \<and>
         (\<forall>found_time. coords pymc_mod time_dim = Some (Some found_time) \<and>
              \<not> array_equal found_time index \<longrightarrow>
            add_data_to_active_model pm_Data TIME_DIM OBS_STATE_DIM pymc_mod vals index
                data_dims_opt
              = (pymc_mod, Inl Time_index_conflict) \<and>
            exc_of Time_index_conflict = ValueError)"
  using assms by (simp add: add_data_to_active_model_def add_coord_def Let_def)

theorem add_data_to_active_model_time_coord_witness:
  "add_data_to_active_model (\<lambda>m n v d h. (m, Inr (n, d, h))) ''time'' ''observed_state''
       \<lparr>coords = Map.empty\<rparr> \<lparr>shape = [2, 1], cells = [Finite 1, Finite 2]\<rparr>
       [IntLabel 0, IntLabel 1] None
     = (\<lparr>coords = [''time'' \<mapsto> Some [IntLabel 0, IntLabel 1]]\<rparr>,
        Inr (''data'', [''time'', ''observed_state''], [None, Some 1])) \<and>
   add_data_to_active_model (\<lambda>m n v d h. (m, Inr (n, d, h))) ''time'' ''observed_state''
       \<lparr>coords = [''time'' \<mapsto> None]\<rparr> \<lparr>shape = [2, 1], cells = [Finite 1, Finite 2]\<rparr>
       [IntLabel 0, IntLabel 1] None
     = (\<lparr>coords = [''time'' \<mapsto> Some [IntLabel 0, IntLabel 1]]\<rparr>,
        Inr (''data'', [''time'', ''observed_state''], [None, Some 1])) \<and>
   add_data_to_active_model (\<lambda>m n v d h. (m, Inr (n, d, h))) ''time'' ''observed_state''
       \<lparr>coords = [''time'' \<mapsto> Some [IntLabel 5, IntLabel 6]]\<rparr>
       \<lparr>shape = [2, 1], cells = [Finite 1, Finite 2]\<rparr> [IntLabel 0, IntLabel 1] None
     = (\<lparr>coords = [''time'' \<mapsto> Some [IntLabel 5, IntLabel 6]]\<rparr>, Inl Time_index_conflict)"
  using add_data_to_active_model_time_coord [where data_dims_opt = None
      and TIME_DIM = "''time''" and OBS_STATE_DIM = "''observed_state''"
      and time_dim = "''time''" and rest = "[''observed_state'']"
      and pymc_mod = "\<lparr>coords = Map.empty\<rparr>"
      and pm_Data = "\<lambda>m n v d h. (m, Inr (n, d, h))"
      and vals = "\<lparr>shape = [2, 1], cells = [Finite 1, Finite 2]\<rparr>"
      and index = "[IntLabel 0, IntLabel 1]"]
    add_data_to_active_model_time_coord [where data_dims_opt = None
      and TIME_DIM = "''time''" and OBS_STATE_DIM = "''observed_state''"
      and time_dim = "''time''" and rest = "[''observed_state'']"
      and pymc_mod = "\<lparr>coords = [''time'' \<mapsto> None]\<rparr>"
      and pm_Data = "\<lambda>m n v d h. (m, Inr (n, d, h))"
      and vals = "\<lparr>shape = [2, 1], cells = [Finite 1, Finite 2]\<rparr>"
      and index = "[IntLabel 0, IntLabel 1]"]
    add_data_to_active_model_time_coord [where data_dims_opt = None
      and TIME_DIM = "''time''" and OBS_STATE_DIM = "''observed_state''"
      and time_dim = "''time''" and rest = "[''observed_state'']"
      and pymc_mod = "\<lparr>coords = [''time'' \<mapsto> Some [IntLabel 5, IntLabel 6]]\<rparr>"
      and pm_Data = "\<lambda>m n v d h. (m, Inr (n, d, h))"
      and vals = "\<lparr>shape = [2, 1], cells = [Finite 1, Finite 2]\<rparr>"
      and index = "[IntLabel 0, IntLabel 1]"]
  by (simp add: declare_data_def array_equal_def)

lemma coords_register_dims:
  "coords (register_dims m dims) n
     = (if n \<in> set dims \<and> coords m n = None then Some None else coords m n)"
  by (induction dims arbitrary: m) auto

lemma coords_declare_data_pymc_Data:
  "coords (fst (declare_data pymc_Data m vals dims)) n
     = (if shape vals \<noteq> [] \<and> length dims = length (shape vals) \<and> n \<in> set dims \<and>
           coords m n = None
        then Some None else coords m n)"
  by (simp add: declare_data_def pymc_Data_def Let_def coords_register_dims)

text \<open>
  C10 fails as stated: the registration ends with \<^verbatim>\<open>pm.Data(..., dims=data_dims)\<close>,
  which registers every dimension name that is not registered yet.  In a context that
  binds the time dimension to the index and knows no observation dimension, the
  conditions of the claim hold and the coordinate mapping gains the observation
  dimension.
\<close>

theorem add_data_to_active_model_coords_counterexample:
  "coords \<lparr>coords = [''time'' \<mapsto> Some [IntLabel 0, IntLabel 1]]\<rparr> ''time''
     = Some (Some [IntLabel 0, IntLabel 1]) \<and>
   array_equal [IntLabel 0, IntLabel 1] [IntLabel 0, IntLabel 1] \<and>
   coords \<lparr>coords = [''time'' \<mapsto> Some [IntLabel 0, IntLabel 1]]\<rparr> ''observed_state'' = None \<and>
   coords (fst (add_data_to_active_model pymc_Data ''time'' ''observed_state''
                  \<lparr>coords = [''time'' \<mapsto> Some [IntLabel 0, IntLabel 1]]\<rparr>
                  \<lparr>shape = [2, 3], cells = map Finite [1, 2, 3, 4, 5, 6]\<rparr>
                  [IntLabel 0, IntLabel 1] None)) ''observed_state'' = Some None"
  by (simp add: add_data_to_active_model_def declare_data_def pymc_Data_def array_equal_def
      Let_def)

text \<open>
  C10, amended.  When the time-dimension name is already bound in the model context to
  a coordinate sequence that \<^verbatim>\<open>np.array_equal\<close> finds equal to the index, the
  coordinate step of the registration changes nothing: the registration is the
  declaration of the data by \<^verbatim>\<open>pm.Data\<close> in the unchanged context.  The time
  coordinate stays bound as it was, no coordinate is replaced or removed, and the only
  coordinates added are the dimension names of \<^verbatim>\<open>data_dims\<close> that are not registered
  yet, which \<^verbatim>\<open>pm.Data\<close> binds to \<^verbatim>\<open>None\<close>; when the other dimension names are
  registered already, the coordinate mapping is unchanged.
\<close>

theorem add_data_to_active_model_coords_unchanged:
  assumes "(case data_dims_opt of None \<Rightarrow> [TIME_DIM, OBS_STATE_DIM] | Some d \<Rightarrow> d)
             = time_dim # rest"
    and "coords pymc_mod time_dim = Some (Some found_time)"
    and "array_equal found_time index"
  shows "add_data_to_active_model pm_Data TIME_DIM OBS_STATE_DIM pymc_mod vals index
             data_dims_opt
           = declare_data pm_Data pymc_mod vals (time_dim # rest) \<and>
         coords (fst (add_data_to_active_model pymc_Data TIME_DIM OBS_STATE_DIM pymc_mod
                        vals index data_dims_opt)) time_dim = Some (Some found_time) \<and>
         (\<forall>n. coords (fst (add_data_to_active_model pymc_Data TIME_DIM OBS_STATE_DIM
                             pymc_mod vals index data_dims_opt)) n
                = (if shape vals \<noteq> [] \<and> length (time_dim # rest) = length (shape vals) \<and>
                      n \<in> set rest \<and> coords pymc_mod n = None
                   then Some None else coords pymc_mod n)) \<and>
         ((\<forall>n \<in> set rest. coords pymc_mod n \<noteq> None) \<longrightarrow>
            coords (fst (add_data_to_active_model pymc_Data TIME_DIM OBS_STATE_DIM pymc_mod
                           vals index data_dims_opt)) = coords pymc_mod)"
proof -
  have eq: "add_data_to_active_model pm TIME_DIM OBS_STATE_DIM pymc_mod vals index
              data_dims_opt = declare_data pm pymc_mod vals (time_dim # rest)" for pm
    using assms by (simp add: add_data_to_active_model_def Let_def)
  have pt: "coords (fst (declare_data pymc_Data pymc_mod vals (time_dim # rest))) n
      = (if shape vals \<noteq> [] \<and> length (time_dim # rest) = length (shape vals) \<and>
            n \<in> set rest \<and> coords pymc_mod n = None
         then Some None else coords pymc_mod n)" for n
    using assms(2) by (auto simp: coords_declare_data_pymc_Data)
  have "coords (fst (declare_data pymc_Data pymc_mod vals (time_dim # rest))) = coords pymc_mod"
    if "\<forall>n \<in> set rest. coords pymc_mod n \<noteq> None"
  proof
    fix n show "coords (fst (declare_data pymc_Data pymc_mod vals (time_dim # rest))) n
        = coords pymc_mod n"
      using that by (auto simp: pt)
  qed
  moreover have "coords (fst (declare_data pymc_Data pymc_mod vals (time_dim # rest))) time_dim
      = Some (Some found_time)"
    using assms(2) by (simp add: pt)
  ultimately show ?thesis
    using pt by (simp only: eq) blast
qed

theorem add_data_to_active_model_coords_unchanged_witness:
  "add_data_to_active_model pymc_Data ''time'' ''observed_state''
       \<lparr>coords = [''time'' \<mapsto> Some [IntLabel 0, IntLabel 1], ''observed_state'' \<mapsto> None]\<rparr>
       \<lparr>shape = [2, 3], cells = map Finite [1, 2, 3, 4, 5, 6]\<rparr> [IntLabel 0, IntLabel 1] None
     = declare_data pymc_Data
         \<lparr>coords = [''time'' \<mapsto> Some [IntLabel 0, IntLabel 1], ''observed_state'' \<mapsto> None]\<rparr>
         \<lparr>shape = [2, 3], cells = map Finite [1, 2, 3, 4, 5, 6]\<rparr> [''time'', ''observed_state''] \<and>
   coords (fst (add_data_to_active_model pymc_Data ''time'' ''observed_state''
       \<lparr>coords = [''time'' \<mapsto> Some [IntLabel 0, IntLabel 1], ''observed_state'' \<mapsto> None]\<rparr>
       \<lparr>shape = [2, 3], cells = map Finite [1, 2, 3, 4, 5, 6]\<rparr> [IntLabel 0, IntLabel 1] None))
     = [''time'' \<mapsto> Some [IntLabel 0, IntLabel 1], ''observed_state'' \<mapsto> None]"
proof -
  let ?m = "\<lparr>coords = [''time'' \<mapsto> Some [IntLabel 0, IntLabel 1], ''observed_state'' \<mapsto> None]\<rparr>"
  have eq: "array_equal [IntLabel 0, IntLabel 1] [IntLabel 0, IntLabel 1]"
    by (simp add: array_equal_def)
  have c: "coords ?m ''time'' = Some (Some [IntLabel 0, IntLabel 1])"
    by simp
  have d: "(case None of None \<Rightarrow> [''time'', ''observed_state''] | Some d \<Rightarrow> d)
             = ''time'' # [''observed_state'']"
    by simp
  have reg: "\<forall>n \<in> set [''observed_state'']. coords ?m n \<noteq> None"
    by simp
  note t = add_data_to_active_model_coords_unchanged [OF d c eq,
      where pm_Data = pymc_Data
        and vals = "\<lparr>shape = [2, 3], cells = map Finite [1, 2, 3, 4, 5, 6]\<rparr>"]
  from t have call: "add_data_to_active_model pymc_Data ''time'' ''observed_state'' ?m
        \<lparr>shape = [2, 3], cells = map Finite [1, 2, 3, 4, 5, 6]\<rparr> [IntLabel 0, IntLabel 1] None
      = declare_data pymc_Data ?m \<lparr>shape = [2, 3], cells = map Finite [1, 2, 3, 4, 5, 6]\<rparr>
          [''time'', ''observed_state'']"
    by (rule conjunct1)
  from t reg have "coords (fst (add_data_to_active_model pymc_Data ''time'' ''observed_state'' ?m
        \<lparr>shape = [2, 3], cells = map Finite [1, 2, 3, 4, 5, 6]\<rparr> [IntLabel 0, IntLabel 1] None))
      = coords ?m"
    by blast
  then have same: "coords (fst (add_data_to_active_model pymc_Data ''time'' ''observed_state'' ?m
        \<lparr>shape = [2, 3], cells = map Finite [1, 2, 3, 4, 5, 6]\<rparr> [IntLabel 0, IntLabel 1] None))
      = [''time'' \<mapsto> Some [IntLabel 0, IntLabel 1], ''observed_state'' \<mapsto> None]"
    by (simp only: pymc_model.select_convs)
  from call same show ?thesis
    by (rule conjI)
qed

subsection \<open>The forward simulator without noise\<close>

lemma matvec_has_shape:
  "has_shape M rows (length v) \<Longrightarrow> matvec M v = Inr (mv M v)"
  by (simp add: matvec_def has_shape_def)

lemma length_mv: "length (mv M v) = length M"
  by (simp add: mv_def)

lemma dot_zeros: "dot row (replicate n 0) = 0"
  unfolding dot_def
proof (induction row arbitrary: n)
  case Nil
  then show ?case by simp
next
  case (Cons a row)
  then show ?case by (cases n) simp_all
qed

lemma mv_zeros: "mv M (replicate n 0) = replicate (length M) 0"
  by (simp add: mv_def dot_zeros map_replicate_const)

lemma add_zeros: "length u = n \<Longrightarrow> map2 (+) u (replicate n (0::real)) = u"
  by (induction u arbitrary: n) auto

lemma row_of_squeeze_vec: "length v = k \<Longrightarrow> row_of k (squeeze_vec v) = Inr v"
  by (cases v rule: squeeze_vec.cases) auto

lemma obs_at_has_shape:
  "obs_has_shape Z steps rows cols \<Longrightarrow> t < steps \<Longrightarrow>
   \<exists>M. obs_at Z t = Inr M \<and> has_shape M rows cols"
  by (cases Z) (auto simp: list_all_length)

text \<open>The deterministic trajectory: \<open>x0\<close>, then \<open>c + T x\<close> again and again.\<close>

lemma sim_step_noiseless:
  assumes ws: "well_shaped k_endog k_states k_posdef x0 c d T Z R H Q steps"
    and q: "is_zero_matrix Q" and h: "is_zero_matrix H"
    and dg: "degenerate_at_zero sampler"
    and t: "t < steps" and xp: "length (x ! (t - 1)) = k_states"
  shows "\<exists>y' rng'.
           sim_step sampler k_endog k_states k_posdef c d T Z R H Q t (x, y, rng)
             = Inr (x[t := map2 (+) c (mv T (x ! (t - 1)))], y', rng')"
proof -
  from ws have shp: "length c = k_states" "length d = k_endog"
    "has_shape T k_states k_states" "obs_has_shape Z steps k_endog k_states"
    "has_shape R k_states k_posdef" "has_shape Q k_posdef k_posdef"
    by (simp_all add: well_shaped_def)
  let ?xt = "map2 (+) c (mv T (x ! (t - 1)))"
  have "\<And>q::real. q = 0 \<Longrightarrow> \<bar>q\<bar> \<le> 1 / 10 ^ 8"
    by simp
  then have hz: "allclose_zero H"
    using h unfolding allclose_zero_def is_zero_matrix_def list_all_iff by blast
  have Tx: "matvec T (x ! (t - 1)) = Inr (mv T (x ! (t - 1)))"
    using shp(3) xp by (simp add: matvec_has_shape)
  have lT: "length (mv T (x ! (t - 1))) = k_states"
    using shp(3) by (simp add: length_mv has_shape_def)
  have cTx: "np_add (Vector c) (Vector (mv T (x ! (t - 1)))) = Inr (Vector ?xt)"
    using shp(1) lT by simp
  have lxt: "length ?xt = k_states"
    using shp(1) lT by simp
  obtain Zt where Zt: "obs_at Z t = Inr Zt" "has_shape Zt k_endog k_states"
    using obs_at_has_shape [OF shp(4) t] by blast
  have Zx: "matvec Zt ?xt = Inr (mv Zt ?xt)"
    using Zt(2) lxt by (simp add: matvec_has_shape)
  have lZx: "length (mv Zt ?xt) = k_endog"
    using Zt(2) by (simp add: length_mv has_shape_def)
  have dZx: "np_add (Vector d) (Vector (mv Zt ?xt)) = Inr (Vector (map2 (+) d (mv Zt ?xt)))"
    using shp(2) lZx by simp
  have ly: "length (map2 (+) d (mv Zt ?xt)) = k_endog"
    using shp(2) lZx by simp
  have yrow: "row_of k_endog (squeeze_vec (map (\<lambda>x. x + 0) (map2 (+) d (mv Zt ?xt))))
      = Inr (map2 (+) d (mv Zt ?xt))"
    using ly by (simp add: row_of_squeeze_vec)
  show ?thesis
  proof (cases "k_posdef > 0")
    case False
    then show ?thesis
      using hz Tx cTx lxt Zt(1) Zx dZx yrow
      by (simp add: sim_step_def bind_err_def)
  next
    case True
    obtain shock rng1 where dr: "sampler rng (replicate k_posdef 0) Q = (shock, rng1)"
      by (cases "sampler rng (replicate k_posdef 0) Q")
    have sh: "shock = replicate k_posdef 0"
      using dg q dr unfolding degenerate_at_zero_def by (metis fst_conv)
    have draw: "multivariate_normal sampler rng (replicate k_posdef 0) Q = Inr (shock, rng1)"
      using shp(6) dr by (simp add: multivariate_normal_def has_shape_def)
    have Rs: "matvec R shock = Inr (replicate k_states 0)"
      using shp(5) unfolding sh by (simp add: matvec_has_shape mv_zeros has_shape_def)
    have inn: "np_add (Vector ?xt) (Vector (replicate k_states 0)) = Inr (Vector ?xt)"
      using lxt by (simp add: add_zeros)
    show ?thesis
      using True hz Tx cTx inn draw Rs lxt Zt(1) Zx dZx yrow
      by (simp add: sim_step_def bind_err_def)
  qed
qed

lemma sim_loop_noiseless:
  assumes ws: "well_shaped k_endog k_states k_posdef x0 c d T Z R H Q steps"
    and q: "is_zero_matrix Q" and h: "is_zero_matrix H"
    and dg: "degenerate_at_zero sampler"
  shows "1 \<le> a \<Longrightarrow> a \<le> steps \<Longrightarrow> length x = steps \<Longrightarrow>
         \<forall>t < steps. length (x ! t) = k_states \<Longrightarrow>
         \<exists>xs y' rng'.
           sim_loop sampler k_endog k_states k_posdef c d T Z R H Q [a..<steps] (x, y, rng)
             = Inr (xs, y', rng') \<and>
           length xs = steps \<and> (\<forall>t < a. xs ! t = x ! t) \<and>
           (\<forall>t. a \<le> t \<and> t < steps \<longrightarrow> xs ! t = map2 (+) c (mv T (xs ! (t - 1))))"
proof (induction "steps - a" arbitrary: a x y rng)
  case 0
  then have "[a..<steps] = []" "steps = a" by simp_all
  with 0 show ?case by auto
next
  case (Suc n)
  then have a: "a < steps" by simp
  let ?x' = "x[a := map2 (+) c (mv T (x ! (a - 1)))]"
  from ws have shp: "length c = k_states" "has_shape T k_states k_states"
    by (simp_all add: well_shaped_def)
  have prev: "length (x ! (a - 1)) = k_states"
    using Suc.prems(4) a by simp
  obtain y1 rng1 where
    step: "sim_step sampler k_endog k_states k_posdef c d T Z R H Q a (x, y, rng)
             = Inr (?x', y1, rng1)"
    using sim_step_noiseless [OF ws q h dg a prev] by blast
  have lnew: "length (map2 (+) c (mv T (x ! (a - 1)))) = k_states"
    using shp by (simp add: length_mv has_shape_def)
  have rows: "\<forall>t < steps. length (?x' ! t) = k_states"
  proof (intro allI impI)
    fix t assume t: "t < steps"
    show "length (?x' ! t) = k_states"
    proof (cases "t = a")
      case True
      then have "?x' ! t = map2 (+) c (mv T (x ! (a - 1)))"
        using t Suc.prems(3) by simp
      then show ?thesis using lnew by (simp only:)
    next
      case False
      then have "?x' ! t = x ! t" by simp
      then show ?thesis using Suc.prems(4) t by simp
    qed
  qed
  have "n = steps - Suc a" using Suc.hyps(2) by simp
  from Suc.hyps(1) [OF this, of ?x' y1 rng1] a Suc.prems(3) rows
  obtain xs y' rng' where
    loop: "sim_loop sampler k_endog k_states k_posdef c d T Z R H Q [Suc a..<steps]
             (?x', y1, rng1) = Inr (xs, y', rng')"
    and len: "length xs = steps"
    and low: "\<forall>t < Suc a. xs ! t = ?x' ! t"
    and high: "\<forall>t. Suc a \<le> t \<and> t < steps \<longrightarrow> xs ! t = map2 (+) c (mv T (xs ! (t - 1)))"
    by auto
  have res: "sim_loop sampler k_endog k_states k_posdef c d T Z R H Q [a..<steps] (x, y, rng)
               = Inr (xs, y', rng')"
    using a step loop by (simp add: upt_conv_Cons bind_err_def)
  have below: "\<forall>t < a. xs ! t = x ! t"
    using low by (simp add: nth_list_update)
  have "xs ! a = map2 (+) c (mv T (x ! (a - 1)))"
    using low a Suc.prems(3) by simp
  moreover have "xs ! (a - 1) = x ! (a - 1)"
    using below Suc.prems(1) by simp
  ultimately have at: "xs ! a = map2 (+) c (mv T (xs ! (a - 1)))"
    by simp
  have "\<forall>t. a \<le> t \<and> t < steps \<longrightarrow> xs ! t = map2 (+) c (mv T (xs ! (t - 1)))"
  proof (intro allI impI)
    fix t assume "a \<le> t \<and> t < steps"
    then show "xs ! t = map2 (+) c (mv T (xs ! (t - 1)))"
      using at high by (cases "t = a") auto
  qed
  with res len below show ?case by blast
qed

text \<open>
  C7.  For matrices of the shapes of a statespace model with \<open>Q\<close> and \<open>H\<close> zero, every
  initial state \<open>x0\<close>, every state of the random generator and at least one step, the
  simulator returns, and the states it returns are the deterministic trajectory:
  \<open>x[0] = x0\<close> and \<open>x[t] = c + T x[t-1]\<close> for every \<open>t\<close> from 1 to \<open>steps - 1\<close>.  The
  generator's draw from a normal distribution of covariance zero is its mean.
\<close>

theorem simulate_from_numpy_model_noiseless:
  assumes ws: "well_shaped k_endog k_states k_posdef x0 c d T Z R H Q steps"
    and q: "is_zero_matrix Q" and h: "is_zero_matrix H"
    and dg: "degenerate_at_zero sampler"
    and steps: "0 < steps"
  shows "\<exists>xs ys rng'.
           simulate_from_numpy_model sampler k_endog k_states k_posdef x0 c d T Z R H Q rng steps
             = Inr (xs, ys, rng') \<and>
           length xs = steps \<and> xs ! 0 = x0 \<and>
           (\<forall>t. 1 \<le> t \<and> t < steps \<longrightarrow> xs ! t = map2 (+) c (mv T (xs ! (t - 1))))"
proof -
  from ws have shp: "length x0 = k_states" "obs_has_shape Z steps k_endog k_states"
    by (simp_all add: well_shaped_def)
  let ?x = "(replicate steps (replicate k_states (0::real)))[0 := x0]"
  let ?y = "replicate steps (replicate k_endog (0::real))"
  have "\<And>q::real. q = 0 \<Longrightarrow> \<bar>q\<bar> \<le> 1 / 10 ^ 8"
    by simp
  then have hz: "allclose_zero H"
    using h unfolding allclose_zero_def is_zero_matrix_def list_all_iff by blast
  have x_row: "row_of k_states (Vector x0) = Inr x0"
    using shp(1) by simp
  obtain Z0 where Z0: "obs_at Z 0 = Inr Z0" "has_shape Z0 k_endog k_states"
    using obs_at_has_shape [OF shp(2) steps] by blast
  have Zx: "matvec Z0 x0 = Inr (mv Z0 x0)"
    using Z0(2) shp(1) by (simp add: matvec_has_shape)
  have y_row: "row_of k_endog (squeeze_vec (mv Z0 x0)) = Inr (mv Z0 x0)"
    using Z0(2) by (simp add: row_of_squeeze_vec length_mv has_shape_def)
  have rows: "\<forall>t < steps. length (?x ! t) = k_states"
    using shp(1) by (simp add: nth_list_update)
  obtain xs y' rng' where
    loop: "sim_loop sampler k_endog k_states k_posdef c d T Z R H Q [1..<steps]
             (?x, ?y[0 := mv Z0 x0], rng) = Inr (xs, y', rng')"
    and len: "length xs = steps"
    and low: "\<forall>t < 1. xs ! t = ?x ! t"
    and high: "\<forall>t. 1 \<le> t \<and> t < steps \<longrightarrow> xs ! t = map2 (+) c (mv T (xs ! (t - 1)))"
    using sim_loop_noiseless [OF ws q h dg, of 1 ?x "?y[0 := mv Z0 x0]" rng] steps rows
    by auto
  have first: "xs ! 0 = x0"
    using low steps by simp
  have "simulate_from_numpy_model sampler k_endog k_states k_posdef x0 c d T Z R H Q rng steps
      = Inr (xs, \<lparr>shape = filter (\<lambda>n. n \<noteq> 1) [steps, k_endog], cells = concat y'\<rparr>, rng')"
    using steps hz x_row Z0(1) Zx y_row loop
    by (simp add: simulate_from_numpy_model_def bind_err_def Let_def)
  with len first high show ?thesis by blast
qed

theorem simulate_from_numpy_model_noiseless_witness:
  "\<exists>xs ys rng'.
     simulate_from_numpy_model
       (\<lambda>g mean cov. (if is_zero_matrix cov then mean else map (\<lambda>m. m + g) mean, g + 1))
       1 2 1 [1, 2] [0, 1] [0] [[1, 1], [0, 1]] (Z_2d [[1, 0]]) [[1], [0]] [[0]] [[0]]
       (7::real) 3
       = Inr (xs, ys, rng') \<and>
     xs ! 0 = [1, 2] \<and> xs ! 1 = [3, 3] \<and> xs ! 2 = [6, 4]"
proof -
  let ?sampler = "\<lambda>(g::real) (mean::vec) (cov::mat).
      (if is_zero_matrix cov then mean else map (\<lambda>m. m + g) mean, g + 1)"
  have ws: "well_shaped 1 2 1 [1, 2] [0, 1] [0] [[1, 1], [0, 1]] (Z_2d [[1, 0]]) [[1], [0]]
              [[0]] [[0]] 3"
    by (simp add: well_shaped_def has_shape_def)
  have z: "is_zero_matrix [[0]]"
    by (simp add: is_zero_matrix_def)
  have dg: "degenerate_at_zero ?sampler"
    by (simp add: degenerate_at_zero_def)
  have steps: "0 < (3::nat)"
    by simp
  from simulate_from_numpy_model_noiseless [OF ws z z dg steps, of 7]
  obtain xs ys rng' where
    r: "simulate_from_numpy_model ?sampler 1 2 1 [1, 2] [0, 1] [0] [[1, 1], [0, 1]]
          (Z_2d [[1, 0]]) [[1], [0]] [[0]] [[0]] 7 3 = Inr (xs, ys, rng')"
    and first: "xs ! 0 = [1, 2]"
    and rec: "\<forall>t. 1 \<le> t \<and> t < 3 \<longrightarrow> xs ! t = map2 (+) [0, 1] (mv [[1, 1], [0, 1]] (xs ! (t - 1)))"
    by blast
  from rec have "xs ! 1 = map2 (+) [0, 1] (mv [[1, 1], [0, 1]] (xs ! 0))"
    by simp
  with first have one: "xs ! 1 = [3, 3]"
    by (simp add: mv_def dot_def)
  from rec have "xs ! 2 = map2 (+) [0, 1] (mv [[1, 1], [0, 1]] (xs ! 1))"
    by simp
  with one have two: "xs ! 2 = [6, 4]"
    by (simp add: mv_def dot_def)
  from r first one two show ?thesis by blast
qed

end
